theory Spec2Isabelle
  imports Main "HOL-Library.Sublist"
begin

unbundle bit_operations_syntax

section \<open>Python values used by aioftp/server.py\<close>

text \<open>
  The exceptions that the modelled code can raise.  An exception that no handler of
  server.py catches ends the handler; the model returns it as a value.
\<close>

datatype error =
    ValueError
  | KeyError string
  | IndexError
  | TypeError
  | OSError string
  | UnknownPathType string
  | ConnectionClosedError

subsection \<open>Strings\<close>

text \<open>\<open>str.split(s, sep)\<close> for a one-character separator.\<close>

fun split_on :: "char \<Rightarrow> string \<Rightarrow> string list" where
  "split_on c [] = [[]]"
| "split_on c (x # xs) =
     (if x = c then [] # split_on c xs
      else (case split_on c xs of
              [] \<Rightarrow> [[x]]
            | r # rs \<Rightarrow> (x # r) # rs))"

text \<open>\<open>str.join(sep, xs)\<close>.\<close>

fun join :: "string \<Rightarrow> string list \<Rightarrow> string" where
  "join sep [] = []"
| "join sep [x] = x"
| "join sep (x # y # ys) = x @ sep @ join sep (y # ys)"

text \<open>
  \<open>str(n)\<close> for an integer, and \<open>int(s)\<close> for a text made of an optional minus sign and
  decimal digits.  Any other text is ValueError here; Python also accepts surrounding
  blanks, a plus sign and underscores, which the numeric host of \<open>getsockname()\<close> does
  not contain.
\<close>

definition digit_char :: "nat \<Rightarrow> char" where
  "digit_char d = ''0123456789'' ! d"

fun index_of :: "'a \<Rightarrow> 'a list \<Rightarrow> nat option" where
  "index_of a [] = None"
| "index_of a (x # xs) =
     (if a = x then Some 0 else map_option Suc (index_of a xs))"

definition digit_of :: "char \<Rightarrow> nat option" where
  "digit_of c = index_of c ''0123456789''"

function str_nat :: "nat \<Rightarrow> string" where
  "str_nat n = (if n < 10 then [digit_char n] else str_nat (n div 10) @ [digit_char (n mod 10)])"
  by pat_completeness auto
termination
  by (relation "measure (\<lambda>n. n)") auto

definition str_int :: "int \<Rightarrow> string" where
  "str_int i = (if i < 0 then ''-'' @ str_nat (nat (- i)) else str_nat (nat i))"

fun digits_value :: "nat \<Rightarrow> string \<Rightarrow> nat option" where
  "digits_value acc [] = Some acc"
| "digits_value acc (c # cs) =
     (case digit_of c of None \<Rightarrow> None | Some d \<Rightarrow> digits_value (10 * acc + d) cs)"

definition py_int :: "string \<Rightarrow> error + int" where
  "py_int s =
     (case s of
        [] \<Rightarrow> Inl ValueError
      | c # cs \<Rightarrow>
          (if c = CHR ''-''
           then (if cs = [] then Inl ValueError
                 else (case digits_value 0 cs of
                         None \<Rightarrow> Inl ValueError
                       | Some n \<Rightarrow> Inr (- int n)))
           else (case digits_value 0 s of
                   None \<Rightarrow> Inl ValueError
                 | Some n \<Rightarrow> Inr (int n))))"

text \<open>A list of results is the list of values, or the first error.\<close>

fun collect :: "(error + 'a) list \<Rightarrow> error + 'a list" where
  "collect [] = Inr []"
| "collect (r # rs) =
     (case r of
        Inl e \<Rightarrow> Inl e
      | Inr v \<Rightarrow> (case collect rs of Inl e \<Rightarrow> Inl e | Inr vs \<Rightarrow> Inr (v # vs)))"

subsection \<open>pathlib paths (POSIX flavour)\<close>

text \<open>
  A \<open>pathlib.Path\<close> on POSIX is a root (\<open>''''\<close>, \<open>''/''\<close>, or \<open>''//''\<close> for exactly two
  leading slashes) and the list of its components.  Parsing drops empty components and
  \<open>.\<close>, and keeps \<open>..\<close>: nothing is resolved.
\<close>

record posix_path =
  root :: string
  comps :: "string list"

definition parse_root :: "string \<Rightarrow> string" where
  "parse_root s =
     (if take 2 s = ''//'' \<and> take 3 s \<noteq> ''///'' then ''//''
      else if take 1 s = ''/'' then ''/''
      else '''')"

definition Path :: "string \<Rightarrow> posix_path" where
  "Path s = \<lparr>root = parse_root s,
             comps = filter (\<lambda>c. c \<noteq> '''' \<and> c \<noteq> ''.'') (split_on CHR ''/'' s)\<rparr>"

definition is_absolute :: "posix_path \<Rightarrow> bool" where
  "is_absolute p = (root p \<noteq> '''')"

text \<open>\<open>p.parts\<close>: the root, when there is one, is the first part.\<close>

definition parts :: "posix_path \<Rightarrow> string list" where
  "parts p = (if root p = '''' then comps p else root p # comps p)"

text \<open>\<open>a / b\<close>: a rooted right operand replaces the left one.\<close>

definition joinpath :: "posix_path \<Rightarrow> posix_path \<Rightarrow> posix_path" where
  "joinpath a b =
     (if root b \<noteq> '''' then b else \<lparr>root = root a, comps = comps a @ comps b\<rparr>)"

text \<open>
  \<open>p.relative_to(other)\<close>: \<open>other\<close> must have the root of \<open>p\<close> and its components must be
  the first components of \<open>p\<close>; otherwise ValueError.  The result is a relative path.
\<close>

definition relative_to :: "posix_path \<Rightarrow> posix_path \<Rightarrow> error + posix_path" where
  "relative_to p other =
     (let n = length (comps other) in
      if root p = root other \<and> take n (comps p) = comps other
      then Inr \<lparr>root = '''', comps = drop n (comps p)\<rparr>
      else Inl ValueError)"

text \<open>\<open>p.parent\<close>: drops the last component; the root and the empty path are their own parent.\<close>

definition parent :: "posix_path \<Rightarrow> posix_path" where
  "parent p = \<lparr>root = root p, comps = butlast (comps p)\<rparr>"

text \<open>\<open>p.name\<close> and \<open>str(p)\<close>.\<close>

definition name :: "posix_path \<Rightarrow> string" where
  "name p = (if comps p = [] then '''' else last (comps p))"

definition str_path :: "posix_path \<Rightarrow> string" where
  "str_path p =
     (if root p = '''' \<and> comps p = [] then ''.'' else root p @ join ''/'' (comps p))"

text \<open>
  \<open>min(iterable, key=..., default=...)\<close>: the first element whose key is minimal; the
  default on an empty iterable.  The running minimum is replaced only by a strictly
  smaller key.
\<close>

fun min_from :: "('a \<Rightarrow> nat) \<Rightarrow> 'a \<Rightarrow> 'a list \<Rightarrow> 'a" where
  "min_from key best [] = best"
| "min_from key best (x # xs) =
     (if key x < key best then min_from key x xs else min_from key best xs)"

definition py_min :: "'a list \<Rightarrow> ('a \<Rightarrow> nat) \<Rightarrow> 'a \<Rightarrow> 'a" where
  "py_min xs key dflt = (case xs of [] \<Rightarrow> dflt | x # rest \<Rightarrow> min_from key x rest)"

section \<open>Permission and User\<close>

record Permission =
  path :: posix_path
  readable :: bool
  writable :: bool

text \<open>\<open>Permission.__init__(path="/", *, readable=True, writable=True)\<close>.\<close>

definition Permission_init :: "string \<Rightarrow> bool \<Rightarrow> bool \<Rightarrow> Permission" where
  "Permission_init p r w = \<lparr>path = Path p, readable = r, writable = w\<rparr>"

definition Permission_default :: Permission where
  "Permission_default = Permission_init ''/'' True True"

text \<open>\<open>Permission.is_parent\<close>: whether \<open>other.relative_to(self.path)\<close> raises ValueError.\<close>

definition is_parent :: "Permission \<Rightarrow> posix_path \<Rightarrow> bool" where
  "is_parent self other =
     (case relative_to other (path self) of Inr _ \<Rightarrow> True | Inl _ \<Rightarrow> False)"

record User =
  login :: "string option"
  password :: "string option"
  base_path :: posix_path
  home_path :: posix_path
  permissions :: "Permission list"

text \<open>
  \<open>User.__init__\<close>: an empty (or absent) permission list is replaced by
  \<open>[Permission()]\<close>.
\<close>

definition User_init ::
  "string option \<Rightarrow> string option \<Rightarrow> string \<Rightarrow> string \<Rightarrow> Permission list \<Rightarrow> User" where
  "User_init l pw base home perms =
     \<lparr>login = l, password = pw, base_path = Path base, home_path = Path home,
      permissions = (if perms = [] then [Permission_default] else perms)\<rparr>"

text \<open>
  The key of \<open>get_permissions\<close>: \<open>len(path.relative_to(p.path).parts)\<close>.  It is only
  evaluated on permissions that passed \<open>is_parent\<close>, where \<open>relative_to\<close> does not raise.
\<close>

definition remaining :: "posix_path \<Rightarrow> Permission \<Rightarrow> nat" where
  "remaining p q =
     (case relative_to p (path q) of Inr r \<Rightarrow> length (parts r) | Inl _ \<Rightarrow> 0)"

definition get_permissions :: "User \<Rightarrow> posix_path \<Rightarrow> Permission" where
  "get_permissions self p =
     (let parents = filter (\<lambda>q. is_parent q p) (permissions self)
      in py_min parents (remaining p) Permission_default)"

section \<open>The session\<close>

text \<open>
  The path-I/O capability (\<open>aioftp.pathio\<close>) is a parameter of the server: its operations
  read and change a file system state of type \<open>'fs\<close>.  \<open>io_mkdir\<close> is
  \<open>mkdir(path, parents=True)\<close>.  \<open>io_mkdir\<close> and \<open>io_rmdir\<close> return \<open>Inl strerror\<close>
  when the call raises OSError.  A stat result carries each field as \<open>str.format\<close> prints
  it.
\<close>

record stat_result =
  st_size :: string
  st_mtime :: string
  st_ctime :: string

record 'fs path_io =
  io_exists :: "'fs \<Rightarrow> posix_path \<Rightarrow> bool"
  io_is_file :: "'fs \<Rightarrow> posix_path \<Rightarrow> bool"
  io_is_dir :: "'fs \<Rightarrow> posix_path \<Rightarrow> bool"
  io_stat :: "'fs \<Rightarrow> posix_path \<Rightarrow> stat_result"
  io_list :: "'fs \<Rightarrow> posix_path \<Rightarrow> posix_path list"
  io_mkdir :: "'fs \<Rightarrow> posix_path \<Rightarrow> string + 'fs"
  io_rmdir :: "'fs \<Rightarrow> posix_path \<Rightarrow> string + 'fs"

text \<open>
  What \<open>socket.getsockname()\<close> returns: a pair for an IPv4 socket, a 4-tuple for an
  IPv6 one.  A listener (\<open>asyncio.Server\<close>) has a list of sockets.
\<close>

datatype sockname = Inet string int | Inet6 string int int int

record listener =
  sockets :: "sockname list"

text \<open>
  The connection dictionary of \<open>dispatcher\<close>.  A key that is not always present is an
  optional field.  The passive connection is a (reader, writer) pair, named by a number.
\<close>

record 'fs session =
  c_client_host :: string
  c_client_port :: int
  c_server_host :: "string option"
  c_server_port :: int
  c_timeout :: "nat option"
  c_path_io :: "'fs path_io"
  c_user :: "User option"
  c_logged :: "bool option"
  c_current_directory :: "posix_path option"
  c_transfer_type :: "string option"
  c_passive_server :: "listener option"
  c_passive_connection :: "nat option"

text \<open>\<open>name in connection\<close>.\<close>

definition in_connection :: "string \<Rightarrow> 'fs session \<Rightarrow> bool" where
  "in_connection key c =
     (if key = ''user'' then c_user c \<noteq> None
      else if key = ''logged'' then c_logged c \<noteq> None
      else if key = ''current_directory'' then c_current_directory c \<noteq> None
      else if key = ''transfer_type'' then c_transfer_type c \<noteq> None
      else if key = ''passive_server'' then c_passive_server c \<noteq> None
      else if key = ''passive_connection'' then c_passive_connection c \<noteq> None
      else key \<in> set [''client_host'', ''client_port'', ''server_host'', ''server_port'',
                      ''command_connection'', ''timeout'', ''path_io'', ''loop''])"

text \<open>
  The server object: its users, its path-I/O capability, the address it was started on,
  and what \<open>asyncio.start_server(handler, host, 0, loop=self.loop)\<close> gives for a host
  (\<open>Inl\<close> when binding raises OSError).
\<close>

record 'fs Server =
  users :: "User list"
  path_io :: "'fs path_io"
  host :: "string option"
  port :: int
  timeout :: "nat option"
  start_server :: "string option \<Rightarrow> string + listener"

text \<open>
  What a handler works on: the connection dictionary, the file system behind
  \<open>path_io\<close>, and the real paths of the \<open>mlsd_writer\<close> tasks handed to the event loop.
\<close>

record 'fs world =
  connection :: "'fs session"
  filesystem :: 'fs
  scheduled :: "posix_path list"

text \<open>The dictionary that \<open>dispatcher\<close> builds for a new connection.\<close>

definition new_connection :: "'fs Server \<Rightarrow> string \<Rightarrow> int \<Rightarrow> 'fs session" where
  "new_connection self h p =
     \<lparr>c_client_host = h, c_client_port = p, c_server_host = host self,
      c_server_port = port self, c_timeout = timeout self, c_path_io = path_io self,
      c_user = None, c_logged = None, c_current_directory = None,
      c_transfer_type = None, c_passive_server = None, c_passive_connection = None\<rparr>"

section \<open>Handler results and the precondition gates\<close>

text \<open>
  The reply text of a handler is a string or a list of strings.  A handler raises,
  returns \<open>None\<close> (a body without \<open>return\<close>), or returns \<open>(ok, code, info)\<close> or
  \<open>(ok, code, info, list)\<close>.
\<close>

datatype info = Str string | Lines "string list"

datatype outcome =
    Raises error
  | Returns_None
  | Returns bool string info "bool option"

text \<open>The argument of a handler: the rest of the command line, or a path (from \<open>cdup\<close>).\<close>

datatype arg = Text string | PathObj posix_path

definition pathlib_Path :: "arg \<Rightarrow> posix_path" where
  "pathlib_Path a = (case a of Text s \<Rightarrow> Path s | PathObj p \<Rightarrow> p)"

text \<open>
  \<open>fields_required(*fields)\<close>: the first pair whose name is not in the connection gives
  the reply; the wrapped function runs only when every name is present.
\<close>

fun first_missing :: "(string \<times> string) list \<Rightarrow> 'fs session \<Rightarrow> string option" where
  "first_missing [] c = None"
| "first_missing ((key, message) # rest) c =
     (if \<not> in_connection key c then Some message else first_missing rest c)"

definition fields_required ::
  "(string \<times> string) list \<Rightarrow> ('fs world \<Rightarrow> 'a \<Rightarrow> outcome \<times> 'fs world) \<Rightarrow>
   'fs world \<Rightarrow> 'a \<Rightarrow> outcome \<times> 'fs world" where
  "fields_required required f w rest =
     (case first_missing required (connection w) of
        Some message \<Rightarrow>
          (Returns True ''503'' (Str (''bad sequence of commands ('' @ message @ '')'')) None, w)
      | None \<Rightarrow> f w rest)"

definition user_required ::
  "('fs world \<Rightarrow> 'a \<Rightarrow> outcome \<times> 'fs world) \<Rightarrow> 'fs world \<Rightarrow> 'a \<Rightarrow> outcome \<times> 'fs world" where
  "user_required = fields_required [(''user'', ''no user (use USER firstly)'')]"

definition login_required ::
  "('fs world \<Rightarrow> 'a \<Rightarrow> outcome \<times> 'fs world) \<Rightarrow> 'fs world \<Rightarrow> 'a \<Rightarrow> outcome \<times> 'fs world" where
  "login_required = fields_required [(''logged'', ''not logged in'')]"

definition passive_required ::
  "('fs world \<Rightarrow> 'a \<Rightarrow> outcome \<times> 'fs world) \<Rightarrow> 'fs world \<Rightarrow> 'a \<Rightarrow> outcome \<times> 'fs world" where
  "passive_required = fields_required
     [(''passive_server'', ''no listen socket created (use PASV firstly)''),
      (''passive_connection'', ''no passive connection created (connect firstly)'')]"

text \<open>
  \<open>unpack_keywords\<close> reads \<open>connection[name]\<close> for each keyword-only parameter, in the
  order of the signature, and raises KeyError on an absent key.  \<open>path_io\<close> is always
  present.
\<close>

definition unpack_user ::
  "(User \<Rightarrow> 'fs world \<Rightarrow> 'a \<Rightarrow> outcome \<times> 'fs world) \<Rightarrow> 'fs world \<Rightarrow> 'a \<Rightarrow> outcome \<times> 'fs world" where
  "unpack_user f w rest =
     (case c_user (connection w) of
        None \<Rightarrow> (Raises (KeyError ''user''), w)
      | Some u \<Rightarrow> f u w rest)"

definition unpack_current_directory ::
  "(posix_path \<Rightarrow> 'fs world \<Rightarrow> 'a \<Rightarrow> outcome \<times> 'fs world) \<Rightarrow>
   'fs world \<Rightarrow> 'a \<Rightarrow> outcome \<times> 'fs world" where
  "unpack_current_directory f w rest =
     (case c_current_directory (connection w) of
        None \<Rightarrow> (Raises (KeyError ''current_directory''), w)
      | Some d \<Rightarrow> f d w rest)"

text \<open>
  \<open>Server.get_paths\<close> (itself under \<open>unpack_keywords\<close> for \<open>user\<close>): the virtual path is
  the argument when it is absolute, else it is joined to the current directory; the real
  path is the virtual path relative to \<open>/\<close>, under the base path of the user.
\<close>

definition get_paths :: "'fs session \<Rightarrow> arg \<Rightarrow> error + (posix_path \<times> posix_path)" where
  "get_paths c p =
     (case c_user c of
        None \<Rightarrow> Inl (KeyError ''user'')
      | Some u \<Rightarrow>
          (case (if is_absolute (pathlib_Path p) then Inr (pathlib_Path p)
                 else (case c_current_directory c of
                         None \<Rightarrow> Inl (KeyError ''current_directory'')
                       | Some d \<Rightarrow> Inr (joinpath d (pathlib_Path p)))) of
             Inl e \<Rightarrow> Inl e
           | Inr virtual_path \<Rightarrow>
               (case relative_to virtual_path (Path ''/'') of
                  Inl e \<Rightarrow> Inl e
                | Inr rel \<Rightarrow> Inr (joinpath (base_path u) rel, virtual_path))))"

section \<open>The line protocol writer\<close>

text \<open>
  A writer is the list of the chunks written to it.  \<open>write_line\<close> writes the line and
  CRLF.
\<close>

definition CRLF :: string where
  "CRLF = [CHR 0x0D, CHR 0x0A]"

definition write_line :: "string list \<Rightarrow> string \<Rightarrow> string list" where
  "write_line writer line = writer @ [line @ CRLF]"

text \<open>
  Modelled from the spec: \<open>common.wrap_with_container\<close>, which is not in server.py
  (``Normalize \<open>lines\<close> to a sequence: a single string becomes \<open>[string]\<close>'').
\<close>

definition wrap_with_container :: "info \<Rightarrow> string list" where
  "wrap_with_container ls = (case ls of Str s \<Rightarrow> [s] | Lines xs \<Rightarrow> xs)"

text \<open>
  \<open>BaseServer.write_response\<close>.  \<open>head, *body, tail = lines\<close> raises ValueError on fewer
  than two lines and \<open>*body, tail = lines\<close> on none, before anything is written.
\<close>

definition write_response ::
  "string list \<Rightarrow> string \<Rightarrow> info \<Rightarrow> bool \<Rightarrow> error + string list" where
  "write_response writer code ls lst =
     (let lines = wrap_with_container ls in
      if lst then
        (case lines of
           [] \<Rightarrow> Inl ValueError
         | head # tl_lines \<Rightarrow>
             (if tl_lines = [] then Inl ValueError
              else Inr (write_line
                          (foldl write_line (write_line writer (code @ ''-'' @ head))
                             (map (\<lambda>line. '' '' @ line) (butlast tl_lines)))
                          (code @ '' '' @ last tl_lines))))
      else
        (if lines = [] then Inl ValueError
         else Inr (write_line
                     (foldl write_line writer (map (\<lambda>line. code @ ''-'' @ line) (butlast lines)))
                     (code @ '' '' @ last lines))))"

section \<open>The command handlers of Server\<close>

definition greeting :: "'fs world \<Rightarrow> string \<Rightarrow> outcome \<times> 'fs world" where
  "greeting w rest = (Returns True ''220'' (Str ''welcome'') None, w)"

text \<open>
  The scan of \<open>Server.user\<close> over \<open>self.users\<close>, with \<open>current_user\<close> as accumulator;
  \<open>break\<close> returns at once.
\<close>

fun scan_users :: "User list \<Rightarrow> string \<Rightarrow> User option \<Rightarrow> User option" where
  "scan_users [] rest current_user = current_user"
| "scan_users (u # us) rest current_user =
     (if login u = None \<and> current_user = None then scan_users us rest (Some u)
      else if login u = Some rest then Some u
      else scan_users us rest current_user)"

definition user :: "'fs Server \<Rightarrow> 'fs world \<Rightarrow> string \<Rightarrow> outcome \<times> 'fs world" where
  "user self w rest =
     (case scan_users (users self) rest None of
        None \<Rightarrow> (Returns False ''530'' (Str ''no such username'') None, w)
      | Some current_user \<Rightarrow>
          (if login current_user = None
           then (Returns True ''230'' (Str ''anonymous login'') None,
                 w\<lparr>connection := (connection w)
                     \<lparr>c_logged := Some True,
                      c_current_directory := Some (home_path current_user),
                      c_user := Some current_user\<rparr>\<rparr>)
           else (Returns True ''331'' (Str ''require password'') None,
                 w\<lparr>connection := (connection w)\<lparr>c_user := Some current_user\<rparr>\<rparr>)))"

definition pass_body :: "User \<Rightarrow> 'fs world \<Rightarrow> string \<Rightarrow> outcome \<times> 'fs world" where
  "pass_body u w rest =
     (if password u = Some rest
      then (Returns True ''230'' (Str ''normal login'') None,
            w\<lparr>connection := (connection w)
                \<lparr>c_logged := Some True,
                 c_current_directory := Some (home_path u),
                 c_user := Some u\<rparr>\<rparr>)
      else (Returns True ''530'' (Str ''wrong password'') None, w))"

text \<open>\<open>Server.pass_\<close>.\<close>

definition pass_cmd :: "'fs world \<Rightarrow> string \<Rightarrow> outcome \<times> 'fs world" where
  "pass_cmd = user_required (unpack_user pass_body)"

definition quit :: "'fs world \<Rightarrow> string \<Rightarrow> outcome \<times> 'fs world" where
  "quit w rest = (Returns False ''221'' (Str ''bye'') None, w)"

definition pwd_body :: "posix_path \<Rightarrow> 'fs world \<Rightarrow> string \<Rightarrow> outcome \<times> 'fs world" where
  "pwd_body current_directory w rest =
     (Returns True ''257'' (Str ([CHR 0x22] @ str_path current_directory @ [CHR 0x22])) None, w)"

definition pwd :: "'fs world \<Rightarrow> string \<Rightarrow> outcome \<times> 'fs world" where
  "pwd = login_required (unpack_current_directory pwd_body)"

definition cwd_body :: "User \<Rightarrow> 'fs world \<Rightarrow> arg \<Rightarrow> outcome \<times> 'fs world" where
  "cwd_body u w rest =
     (let c = connection w; io = c_path_io c; fs = filesystem w in
      case get_paths c rest of
        Inl e \<Rightarrow> (Raises e, w)
      | Inr (real_path, virtual_path) \<Rightarrow>
          if \<not> io_exists io fs real_path
          then (Returns True ''550'' (Str ''path does not exists'') None, w)
          else if \<not> io_is_dir io fs real_path
          then (Returns True ''550'' (Str ''path is not a directory'') None, w)
          else if readable (get_permissions u virtual_path)
          then (Returns True ''250'' (Str []) None,
                w\<lparr>connection := c\<lparr>c_current_directory := Some virtual_path\<rparr>\<rparr>)
          else (Returns True ''550'' (Str ''permission denied'') None, w))"

definition cwd :: "'fs world \<Rightarrow> arg \<Rightarrow> outcome \<times> 'fs world" where
  "cwd = login_required (unpack_user cwd_body)"

text \<open>\<open>cdup\<close> calls the decorated \<open>cwd\<close> with the parent path (a path, not a text).\<close>

definition cdup_body :: "posix_path \<Rightarrow> 'fs world \<Rightarrow> string \<Rightarrow> outcome \<times> 'fs world" where
  "cdup_body current_directory w rest = cwd w (PathObj (parent current_directory))"

definition cdup :: "'fs world \<Rightarrow> string \<Rightarrow> outcome \<times> 'fs world" where
  "cdup = login_required (unpack_current_directory cdup_body)"

definition mkd_body :: "User \<Rightarrow> 'fs world \<Rightarrow> string \<Rightarrow> outcome \<times> 'fs world" where
  "mkd_body u w rest =
     (let c = connection w; io = c_path_io c; fs = filesystem w in
      case get_paths c (Text rest) of
        Inl e \<Rightarrow> (Raises e, w)
      | Inr (real_path, virtual_path) \<Rightarrow>
          if io_exists io fs real_path
          then (Returns True ''550'' (Str ''path already exists'') None, w)
          else if writable (get_permissions u virtual_path)
          then (case io_mkdir io fs real_path of
                  Inl strerror \<Rightarrow> (Raises (OSError strerror), w)
                | Inr fs' \<Rightarrow> (Returns True ''257'' (Str []) None, w\<lparr>filesystem := fs'\<rparr>))
          else (Returns True ''550'' (Str ''permission denied'') None, w))"

definition mkd :: "'fs world \<Rightarrow> string \<Rightarrow> outcome \<times> 'fs world" where
  "mkd = login_required (unpack_user mkd_body)"

text \<open>
  \<open>Server.rmd\<close> assigns \<open>code\<close> and \<open>info\<close> on every branch (\<open>rmd_code_info\<close>) and has no
  \<open>return\<close> statement: the body ends and the call gives \<open>None\<close>.
\<close>

definition rmd_code_info ::
  "User \<Rightarrow> 'fs world \<Rightarrow> posix_path \<Rightarrow> posix_path \<Rightarrow> (string \<times> string) \<times> 'fs world" where
  "rmd_code_info u w real_path virtual_path =
     (let io = c_path_io (connection w); fs = filesystem w in
      if \<not> io_exists io fs real_path then ((''550'', ''path does not exists''), w)
      else if \<not> io_is_dir io fs real_path then ((''550'', ''path is not a directory''), w)
      else if writable (get_permissions u virtual_path)
      then (case io_rmdir io fs real_path of
              Inr fs' \<Rightarrow> ((''257'', []), w\<lparr>filesystem := fs'\<rparr>)
            | Inl strerror \<Rightarrow> ((''550'', ''os error: '' @ strerror), w))
      else ((''550'', ''permission denied''), w))"

definition rmd_body :: "User \<Rightarrow> 'fs world \<Rightarrow> string \<Rightarrow> outcome \<times> 'fs world" where
  "rmd_body u w rest =
     (case get_paths (connection w) (Text rest) of
        Inl e \<Rightarrow> (Raises e, w)
      | Inr (real_path, virtual_path) \<Rightarrow>
          (case rmd_code_info u w real_path virtual_path of
             ((code, info), w') \<Rightarrow> (Returns_None, w')))"

definition rmd :: "'fs world \<Rightarrow> string \<Rightarrow> outcome \<times> 'fs world" where
  "rmd = login_required (unpack_user rmd_body)"

text \<open>
  \<open>Server.build_mlsx_string\<close>: the facts in the order in which the source inserts them
  into \<open>stats\<close>.
\<close>

definition build_mlsx_string :: "'fs world \<Rightarrow> posix_path \<Rightarrow> error + string" where
  "build_mlsx_string w p =
     (let io = c_path_io (connection w); fs = filesystem w in
      case (if io_is_file io fs p then Inr ''file''
            else if io_is_dir io fs p then Inr ''dir''
            else Inl (UnknownPathType (str_path p))) of
        Inl e \<Rightarrow> Inl e
      | Inr ty \<Rightarrow>
          (let raw_stats = io_stat io fs p;
               stats = [(''Type'', ty), (''Size'', st_size raw_stats),
                        (''Modify'', st_mtime raw_stats), (''Create'', st_ctime raw_stats)]
           in Inr (concat (map (\<lambda>(fact, v). fact @ ''='' @ v @ '';'') stats)
                   @ '' '' @ name p)))"

text \<open>
  \<open>Server.mlsd\<close> hands \<open>mlsd_writer\<close> to the event loop and replies at once; the task
  runs later (\<open>mlsd_writer\<close> below).
\<close>

definition mlsd_body :: "User \<Rightarrow> 'fs world \<Rightarrow> string \<Rightarrow> outcome \<times> 'fs world" where
  "mlsd_body u w rest =
     (case get_paths (connection w) (Text rest) of
        Inl e \<Rightarrow> (Raises e, w)
      | Inr (real_path, virtual_path) \<Rightarrow>
          if readable (get_permissions u virtual_path)
          then (Returns True ''150'' (Str ''mlsd transer started'') None,
                w\<lparr>scheduled := scheduled w @ [real_path]\<rparr>)
          else (Returns True ''550'' (Str ''permission denied'') None, w))"

definition mlsd :: "'fs world \<Rightarrow> string \<Rightarrow> outcome \<times> 'fs world" where
  "mlsd = login_required (passive_required (unpack_user mlsd_body))"

text \<open>
  The lines that \<open>mlsd_writer\<close> writes to the data connection, up to the first path whose
  fact string raises.
\<close>

fun write_listing :: "'fs world \<Rightarrow> posix_path list \<Rightarrow> string list \<times> error option" where
  "write_listing w [] = ([], None)"
| "write_listing w (p # ps) =
     (case build_mlsx_string w p of
        Inl e \<Rightarrow> ([], Some e)
      | Inr s \<Rightarrow>
          (case write_listing w ps of
             (out, e) \<Rightarrow> ((s @ [CHR 0x0A]) # out, e)))"

text \<open>
  The task \<open>mlsd_writer\<close> for a real path: it pops \<open>passive_connection\<close>, writes the
  listing to the data connection, and then writes the \<open>200\<close> reply on the command
  connection.  The result is the exception (if any), the world, the data written and the
  command connection's writer.
\<close>

definition mlsd_writer ::
  "'fs world \<Rightarrow> string list \<Rightarrow> posix_path \<Rightarrow>
   error option \<times> 'fs world \<times> string list \<times> string list" where
  "mlsd_writer w writer real_path =
     (case c_passive_connection (connection w) of
        None \<Rightarrow> (Some (KeyError ''passive_connection''), w, [], writer)
      | Some data \<Rightarrow>
          (let w' = w\<lparr>connection := (connection w)\<lparr>c_passive_connection := None\<rparr>\<rparr> in
           case write_listing w'
                  (io_list (c_path_io (connection w')) (filesystem w') real_path) of
             (out, Some e) \<Rightarrow> (Some e, w', out, writer)
           | (out, None) \<Rightarrow>
               (case write_response writer ''200'' (Str ''mlsd data transer done'') False of
                  Inl e \<Rightarrow> (Some e, w', out, writer)
                | Inr writer' \<Rightarrow> (None, w', out, writer'))))"

definition mlst_body :: "User \<Rightarrow> 'fs world \<Rightarrow> string \<Rightarrow> outcome \<times> 'fs world" where
  "mlst_body u w rest =
     (case get_paths (connection w) (Text rest) of
        Inl e \<Rightarrow> (Raises e, w)
      | Inr (real_path, virtual_path) \<Rightarrow>
          if readable (get_permissions u virtual_path)
          then (case build_mlsx_string w real_path of
                  Inl e \<Rightarrow> (Raises e, w)
                | Inr s \<Rightarrow> (Returns True ''250'' (Lines [''start'', s, ''end'']) (Some True), w))
          else (Returns True ''550'' (Str ''permission denied'') (Some False), w))"

definition mlst :: "'fs world \<Rightarrow> string \<Rightarrow> outcome \<times> 'fs world" where
  "mlst = login_required (unpack_user mlst_body)"

text \<open>The reserved verbs: the body is \<open>pass\<close>, the call gives \<open>None\<close>.\<close>

definition stub :: "'fs world \<Rightarrow> string \<Rightarrow> outcome \<times> 'fs world" where
  "stub w rest = (Returns_None, w)"

definition rnfr :: "'fs world \<Rightarrow> string \<Rightarrow> outcome \<times> 'fs world" where
  "rnfr = login_required stub"

definition rnto :: "'fs world \<Rightarrow> string \<Rightarrow> outcome \<times> 'fs world" where
  "rnto = login_required stub"

definition dele :: "'fs world \<Rightarrow> string \<Rightarrow> outcome \<times> 'fs world" where
  "dele = login_required stub"

definition stor :: "'fs world \<Rightarrow> string \<Rightarrow> outcome \<times> 'fs world" where
  "stor = login_required stub"

definition retr :: "'fs world \<Rightarrow> string \<Rightarrow> outcome \<times> 'fs world" where
  "retr = login_required stub"

definition abor :: "'fs world \<Rightarrow> string \<Rightarrow> outcome \<times> 'fs world" where
  "abor = login_required stub"

definition type_body :: "'fs world \<Rightarrow> string \<Rightarrow> outcome \<times> 'fs world" where
  "type_body w rest =
     (if rest = ''I''
      then (Returns True ''200'' (Str []) None,
            w\<lparr>connection := (connection w)\<lparr>c_transfer_type := Some rest\<rparr>\<rparr>)
      else (Returns True ''502''
              (Str (''type '' @ [CHR 0x27] @ rest @ [CHR 0x27] @ '' not implemented''))
              None, w))"

definition type :: "'fs world \<Rightarrow> string \<Rightarrow> outcome \<times> 'fs world" where
  "type = login_required type_body"

text \<open>
  The accept callback \<open>handler\<close> of \<open>Server.pasv\<close>: the first accepted connection is kept,
  a later one is closed (the flag) while the first is still there.
\<close>

definition pasv_handler :: "'fs world \<Rightarrow> nat \<Rightarrow> 'fs world \<times> bool" where
  "pasv_handler w data =
     (if c_passive_connection (connection w) \<noteq> None then (w, True)
      else (w\<lparr>connection := (connection w)\<lparr>c_passive_connection := Some data\<rparr>\<rparr>, False))"

text \<open>
  \<open>Server.pasv\<close>: \<open>host, port = ...getsockname()\<close> fails on a socket name that is not a
  pair, and \<open>int\<close> on a host component that is not a number.
\<close>

definition pasv_listener ::
  "'fs Server \<Rightarrow> 'fs world \<Rightarrow> error + (listener \<times> string \<times> 'fs world)" where
  "pasv_listener self w =
     (case c_passive_server (connection w) of
        None \<Rightarrow>
          (case start_server self (c_server_host (connection w)) of
             Inl strerror \<Rightarrow> Inl (OSError strerror)
           | Inr srv \<Rightarrow>
               Inr (srv, ''listen socket created'',
                    w\<lparr>connection := (connection w)\<lparr>c_passive_server := Some srv\<rparr>\<rparr>))
      | Some srv \<Rightarrow> Inr (srv, ''listen socket already exists'', w))"

definition pasv_nums :: "string \<Rightarrow> int \<Rightarrow> error + int list" where
  "pasv_nums h p =
     (case collect (map py_int (split_on CHR ''.'' h)) of
        Inl e \<Rightarrow> Inl e
      | Inr octets \<Rightarrow> Inr (octets @ [drop_bit 8 p, p AND 255]))"

definition pasv_body :: "'fs Server \<Rightarrow> 'fs world \<Rightarrow> string \<Rightarrow> outcome \<times> 'fs world" where
  "pasv_body self w rest =
     (case pasv_listener self w of
        Inl e \<Rightarrow> (Raises e, w)
      | Inr (srv, message, w') \<Rightarrow>
          (case sockets srv of
             [] \<Rightarrow> (Raises IndexError, w')
           | s # _ \<Rightarrow>
               (case s of
                  Inet6 _ _ _ _ \<Rightarrow> (Raises ValueError, w')
                | Inet h p \<Rightarrow>
                    (case pasv_nums h p of
                       Inl e \<Rightarrow> (Raises e, w')
                     | Inr nums \<Rightarrow>
                         (Returns True ''227''
                            (Lines [message, ''('' @ join '','' (map str_int nums) @ '')''])
                            None, w')))))"

definition pasv :: "'fs Server \<Rightarrow> 'fs world \<Rightarrow> string \<Rightarrow> outcome \<times> 'fs world" where
  "pasv self = login_required (pasv_body self)"

section \<open>Dispatch\<close>

text \<open>
  \<open>getattr(self, cmd)\<close> for the names of the command handlers of \<open>Server\<close>.
\<close>

definition handler_names :: "string list" where
  "handler_names =
     [''greeting'', ''user'', ''pass_'', ''quit'', ''pwd'', ''cwd'', ''cdup'', ''mkd'', ''rmd'',
      ''mlsd'', ''mlst'', ''rnfr'', ''rnto'', ''dele'', ''stor'', ''retr'', ''type'', ''pasv'',
      ''abor'']"

definition handler_of ::
  "'fs Server \<Rightarrow> string \<Rightarrow> ('fs world \<Rightarrow> string \<Rightarrow> outcome \<times> 'fs world) option" where
  "handler_of self cmd =
     (if cmd = ''greeting'' then Some greeting
      else if cmd = ''user'' then Some (user self)
      else if cmd = ''pass_'' then Some pass_cmd
      else if cmd = ''quit'' then Some quit
      else if cmd = ''pwd'' then Some pwd
      else if cmd = ''cwd'' then Some (\<lambda>w rest. cwd w (Text rest))
      else if cmd = ''cdup'' then Some cdup
      else if cmd = ''mkd'' then Some mkd
      else if cmd = ''rmd'' then Some rmd
      else if cmd = ''mlsd'' then Some mlsd
      else if cmd = ''mlst'' then Some mlst
      else if cmd = ''rnfr'' then Some rnfr
      else if cmd = ''rnto'' then Some rnto
      else if cmd = ''dele'' then Some dele
      else if cmd = ''stor'' then Some stor
      else if cmd = ''retr'' then Some retr
      else if cmd = ''type'' then Some type
      else if cmd = ''pasv'' then Some (pasv self)
      else if cmd = ''abor'' then Some abor
      else None)"

text \<open>
  One turn of the loop of \<open>BaseServer.dispatcher\<close> for a command that
  \<open>parse_command\<close> has read: \<open>pass\<close> is renamed, the handler is called,
  \<open>ok, *args = ...\<close> takes its result apart (TypeError on \<open>None\<close>) and
  \<open>write_response\<close> writes the reply; an unknown verb is answered with \<open>502\<close>.
  The result is the new \<open>ok\<close>, or the exception that leaves the loop.
\<close>

definition dispatch ::
  "'fs Server \<Rightarrow> 'fs world \<Rightarrow> string list \<Rightarrow> string \<times> string \<Rightarrow>
   (error + bool) \<times> 'fs world \<times> string list" where
  "dispatch self w writer command =
     (let cmd = (if fst command = ''pass'' then ''pass_'' else fst command) in
      case handler_of self cmd of
        None \<Rightarrow>
          (case write_response writer ''502''
                  (Str ([CHR 0x27] @ cmd @ [CHR 0x27] @ '' not implemented'')) False of
             Inl e \<Rightarrow> (Inl e, w, writer)
           | Inr writer' \<Rightarrow> (Inr True, w, writer'))
      | Some h \<Rightarrow>
          (case h w (snd command) of
             (Raises e, w') \<Rightarrow> (Inl e, w', writer)
           | (Returns_None, w') \<Rightarrow> (Inl TypeError, w', writer)
           | (Returns ok code info lst, w') \<Rightarrow>
               (case write_response writer code info (case lst of None \<Rightarrow> False | Some b \<Rightarrow> b) of
                  Inl e \<Rightarrow> (Inl e, w', writer)
                | Inr writer' \<Rightarrow> (Inr ok, w', writer'))))"

text \<open>
  The loop \<open>while ok\<close> over the commands that the client sends.  When the client has sent
  them all and closes, \<open>parse_command\<close> raises ConnectionClosedError.
\<close>

fun dispatcher_loop ::
  "'fs Server \<Rightarrow> 'fs world \<Rightarrow> string list \<Rightarrow> (string \<times> string) list \<Rightarrow>
   error option \<times> 'fs world \<times> string list" where
  "dispatcher_loop self w writer [] = (Some ConnectionClosedError, w, writer)"
| "dispatcher_loop self w writer (command # commands) =
     (case dispatch self w writer command of
        (Inl e, w', writer') \<Rightarrow> (Some e, w', writer')
      | (Inr ok, w', writer') \<Rightarrow>
          (if ok then dispatcher_loop self w' writer' commands else (None, w', writer')))"

section \<open>The specification's reading of USER and of the PASV reply\<close>

text \<open>
  The user that USER selects, in the words of the specification: the first user whose
  login is the argument, and the first anonymous user when there is none.
\<close>

definition selected_user :: "User list \<Rightarrow> string \<Rightarrow> User option" where
  "selected_user us rest =
     (case find (\<lambda>u. login u = Some rest) us of
        Some u \<Rightarrow> Some u
      | None \<Rightarrow> find (\<lambda>u. login u = None) us)"

text \<open>
  A client's reading of the second line of a \<open>227\<close> reply: the numbers between the
  parentheses, separated by commas; the last two are \<open>p1\<close> and \<open>p2\<close> with
  \<open>port = p1 * 256 + p2\<close>, the others are the host octets.
\<close>

definition decode_pasv :: "string \<Rightarrow> (int list \<times> int) option" where
  "decode_pasv s =
     (case s of
        [] \<Rightarrow> None
      | c # cs \<Rightarrow>
          (if c = CHR ''('' \<and> cs \<noteq> [] \<and> last cs = CHR '')''
           then (case collect (map py_int (split_on CHR '','' (butlast cs))) of
                   Inl e \<Rightarrow> None
                 | Inr nums \<Rightarrow>
                     (if length nums < 2 then None
                      else Some (butlast (butlast nums),
                                 last (butlast nums) * 256 + last nums)))
           else None))"

section \<open>Example sessions\<close>

text \<open>
  A path-I/O over the list of the directories that exist, two users, and a server whose
  passive listener is bound to 127.0.0.1, port 50001.
\<close>

definition example_io :: "posix_path list path_io" where
  "example_io =
     \<lparr>io_exists = (\<lambda>fs p. p \<in> set fs),
      io_is_file = (\<lambda>fs p. False),
      io_is_dir = (\<lambda>fs p. p \<in> set fs),
      io_stat = (\<lambda>fs p. \<lparr>st_size = ''4096'', st_mtime = ''0'', st_ctime = ''0''\<rparr>),
      io_list = (\<lambda>fs p. []),
      io_mkdir = (\<lambda>fs p. Inr (p # fs)),
      io_rmdir = (\<lambda>fs p. if p \<in> set fs then Inr (removeAll p fs)
                           else Inl ''No such file or directory'')\<rparr>"

definition alice :: User where
  "alice = User_init (Some ''alice'') (Some ''secret'') ''/srv'' ''/''
     [Permission_init ''/'' True True, Permission_init ''/pub'' True False,
      Permission_init ''/pub/in'' False True]"

definition anonymous :: User where
  "anonymous = User_init None None ''/srv/anon'' ''/'' []"

definition carol :: User where
  "carol = User_init (Some ''carol'') (Some ''pw'') ''/srv/carol'' ''/''
     [Permission_init ''/a'' False False]"

definition example_server :: "User list \<Rightarrow> posix_path list Server" where
  "example_server us =
     \<lparr>users = us, path_io = example_io, host = Some ''127.0.0.1'', port = 2121,
      timeout = None,
      start_server = (\<lambda>h. Inr \<lparr>sockets = [Inet ''127.0.0.1'' 50001]\<rparr>)\<rparr>"

text \<open>A fresh connection, and the same connection after \<open>USER alice\<close>, \<open>PASS secret\<close>.\<close>

definition fresh_world :: "posix_path list world" where
  "fresh_world =
     \<lparr>connection = new_connection (example_server [alice]) ''10.0.0.7'' 40000,
      filesystem = [Path ''/srv'', Path ''/srv/pub'', Path ''/srv/old''],
      scheduled = []\<rparr>"

definition logged_world :: "posix_path list world" where
  "logged_world =
     fresh_world\<lparr>connection := (connection fresh_world)
       \<lparr>c_logged := Some True, c_current_directory := Some (Path ''/''),
        c_user := Some alice\<rparr>\<rparr>"

text \<open>The logged-in connection after \<open>CWD pub\<close>.\<close>

definition pub_world :: "posix_path list world" where
  "pub_world =
     logged_world\<lparr>connection := (connection logged_world)
       \<lparr>c_current_directory := Some (Path ''/pub'')\<rparr>\<rparr>"

section \<open>Simplification sets\<close>

lemmas path_defs = Path_def parse_root_def is_absolute_def joinpath_def relative_to_def
  parent_def parts_def pathlib_Path_def
lemmas perm_defs = get_permissions_def py_min_def remaining_def is_parent_def
lemmas gate_defs = fields_required_def user_required_def login_required_def
  passive_required_def in_connection_def unpack_user_def unpack_current_directory_def
lemmas example_defs = example_io_def alice_def anonymous_def example_server_def
  fresh_world_def logged_world_def pub_world_def new_connection_def User_init_def
  Permission_init_def
  Permission_default_def

section \<open>Permission resolution\<close>

lemma take_eq_prefix: "take (length xs) ys = xs \<longleftrightarrow> prefix xs ys"
proof
  assume "take (length xs) ys = xs"
  then have "ys = xs @ drop (length xs) ys" by (metis append_take_drop_id)
  then show "prefix xs ys" by (rule prefixI)
next
  assume "prefix xs ys"
  then show "take (length xs) ys = xs" by (auto simp: prefix_def)
qed

lemma is_parent_iff:
  "is_parent q p \<longleftrightarrow> root (path q) = root p \<and> prefix (comps (path q)) (comps p)"
  by (auto simp: is_parent_def relative_to_def Let_def take_eq_prefix)

lemma remaining_eq:
  "is_parent q p \<Longrightarrow> remaining p q = length (comps p) - length (comps (path q))"
  by (auto simp: is_parent_def remaining_def relative_to_def Let_def parts_def split: if_splits)

lemma min_from_split:
  "min_from key best xs = best \<and> (\<forall>x\<in>set xs. key best \<le> key x) \<or>
   (\<exists>b a. xs = b @ min_from key best xs # a \<and> key (min_from key best xs) < key best \<and>
      (\<forall>x\<in>set b. key (min_from key best xs) < key x) \<and>
      (\<forall>x\<in>set a. key (min_from key best xs) \<le> key x))"
proof (induction xs arbitrary: best)
  case Nil
  then show ?case by simp
next
  case (Cons x xs)
  show ?case
  proof (cases "key x < key best")
    case True
    from Cons.IH[of x] show ?thesis
    proof
      assume h: "min_from key x xs = x \<and> (\<forall>y\<in>set xs. key x \<le> key y)"
      have "x # xs = [] @ min_from key best (x # xs) # xs" using True h by simp
      with True h show ?thesis by (intro disjI2 exI[of _ "[]"] exI[of _ xs]) auto
    next
      assume "\<exists>b a. xs = b @ min_from key x xs # a \<and> key (min_from key x xs) < key x \<and>
        (\<forall>y\<in>set b. key (min_from key x xs) < key y) \<and>
        (\<forall>y\<in>set a. key (min_from key x xs) \<le> key y)"
      then obtain b a where h: "xs = b @ min_from key x xs # a"
        "key (min_from key x xs) < key x"
        "\<forall>y\<in>set b. key (min_from key x xs) < key y"
        "\<forall>y\<in>set a. key (min_from key x xs) \<le> key y" by blast
      have "x # xs = (x # b) @ min_from key best (x # xs) # a" using True h(1) by simp
      with True h show ?thesis
        by (intro disjI2 exI[of _ "x # b"] exI[of _ a]) auto
    qed
  next
    case False
    from Cons.IH[of best] show ?thesis
    proof
      assume h: "min_from key best xs = best \<and> (\<forall>y\<in>set xs. key best \<le> key y)"
      with False show ?thesis by auto
    next
      assume "\<exists>b a. xs = b @ min_from key best xs # a \<and> key (min_from key best xs) < key best \<and>
        (\<forall>y\<in>set b. key (min_from key best xs) < key y) \<and>
        (\<forall>y\<in>set a. key (min_from key best xs) \<le> key y)"
      then obtain b a where h: "xs = b @ min_from key best xs # a"
        "key (min_from key best xs) < key best"
        "\<forall>y\<in>set b. key (min_from key best xs) < key y"
        "\<forall>y\<in>set a. key (min_from key best xs) \<le> key y" by blast
      have "x # xs = (x # b) @ min_from key best (x # xs) # a" using False h(1) by simp
      with False h show ?thesis
        by (intro disjI2 exI[of _ "x # b"] exI[of _ a]) auto
    qed
  qed
qed

lemma py_min_split:
  assumes "xs \<noteq> []"
  shows "\<exists>b a. xs = b @ py_min xs key d # a \<and>
      (\<forall>x\<in>set b. key (py_min xs key d) < key x) \<and>
      (\<forall>x\<in>set a. key (py_min xs key d) \<le> key x)"
proof -
  from assms obtain x rest where xs: "xs = x # rest" by (cases xs) auto
  then have pm: "py_min xs key d = min_from key x rest" by (simp add: py_min_def)
  from min_from_split[of key x rest] show ?thesis
  proof
    assume h: "min_from key x rest = x \<and> (\<forall>y\<in>set rest. key x \<le> key y)"
    then have "xs = [] @ py_min xs key d # rest" using xs pm by simp
    with h pm show ?thesis by (intro exI[of _ "[]"] exI[of _ rest]) auto
  next
    assume "\<exists>b a. rest = b @ min_from key x rest # a \<and> key (min_from key x rest) < key x \<and>
        (\<forall>y\<in>set b. key (min_from key x rest) < key y) \<and>
        (\<forall>y\<in>set a. key (min_from key x rest) \<le> key y)"
    then obtain b a where h: "rest = b @ min_from key x rest # a"
        "key (min_from key x rest) < key x"
        "\<forall>y\<in>set b. key (min_from key x rest) < key y"
        "\<forall>y\<in>set a. key (min_from key x rest) \<le> key y" by blast
    have "xs = (x # b) @ py_min xs key d # a" using xs pm h(1) by simp
    with h pm show ?thesis by (intro exI[of _ "x # b"] exI[of _ a]) auto
  qed
qed

lemma filter_split:
  "filter P xs = b @ r # a \<Longrightarrow>
   \<exists>b' a'. xs = b' @ r # a' \<and> filter P b' = b \<and> filter P a' = a \<and> P r"
proof (induction b arbitrary: xs)
  case Nil
  then obtain us vs where v: "xs = us @ r # vs" "\<forall>u\<in>set us. \<not> P u" "P r" "a = filter P vs"
    by (auto simp: filter_eq_Cons_iff)
  then show ?case by (intro exI[of _ us] exI[of _ vs]) auto
next
  case (Cons y b)
  then obtain us vs where v: "xs = us @ y # vs" "\<forall>u\<in>set us. \<not> P u" "P y"
      "b @ r # a = filter P vs"
    by (auto simp: filter_eq_Cons_iff)
  from Cons.IH[of vs] v(4) obtain b'' a' where
    w: "vs = b'' @ r # a'" "filter P b'' = b" "filter P a' = a" "P r" by auto
  have "xs = (us @ y # b'') @ r # a'" using v(1) w(1) by simp
  moreover have "filter P (us @ y # b'') = y # b" using v(2) v(3) w(2) by simp
  ultimately show ?case using w(3) w(4) by blast
qed

lemma get_permissions_default:
  assumes "\<forall>q\<in>set (permissions u). \<not> is_parent q p"
  shows "get_permissions u p = \<lparr>path = \<lparr>root = ''/'', comps = []\<rparr>, readable = True, writable = True\<rparr>"
proof -
  have "filter (\<lambda>q. is_parent q p) (permissions u) = []" using assms by (simp add: filter_empty_conv)
  then show ?thesis
    by (simp add: get_permissions_def py_min_def Permission_default_def Permission_init_def Path_def parse_root_def)
qed

lemma get_permissions_match:
  assumes "\<exists>q\<in>set (permissions u). is_parent q p"
  shows "\<exists>before after. permissions u = before @ get_permissions u p # after \<and>
     is_parent (get_permissions u p) p \<and>
     (\<forall>q\<in>set before. is_parent q p \<longrightarrow>
        length (comps p) - length (comps (path (get_permissions u p)))
          < length (comps p) - length (comps (path q))) \<and>
     (\<forall>q\<in>set after. is_parent q p \<longrightarrow>
        length (comps p) - length (comps (path (get_permissions u p)))
          \<le> length (comps p) - length (comps (path q)))"
proof -
  let ?ms = "filter (\<lambda>q. is_parent q p) (permissions u)"
  let ?r = "get_permissions u p"
  have ne: "?ms \<noteq> []" using assms by (simp add: filter_empty_conv)
  have r: "?r = py_min ?ms (remaining p) Permission_default"
    by (simp add: get_permissions_def)
  from py_min_split[OF ne, of "remaining p" Permission_default] r
  obtain b a where h: "?ms = b @ ?r # a"
      "\<forall>x\<in>set b. remaining p ?r < remaining p x"
      "\<forall>x\<in>set a. remaining p ?r \<le> remaining p x" by auto
  from filter_split[OF h(1)] obtain b' a' where s: "permissions u = b' @ ?r # a'"
      "filter (\<lambda>q. is_parent q p) b' = b" "filter (\<lambda>q. is_parent q p) a' = a" "is_parent ?r p"
    by blast
  have "\<forall>q\<in>set b'. is_parent q p \<longrightarrow> remaining p ?r < remaining p q"
    using h(2) s(2) by auto
  moreover have "\<forall>q\<in>set a'. is_parent q p \<longrightarrow> remaining p ?r \<le> remaining p q"
    using h(3) s(3) by auto
  ultimately show ?thesis using s(1) s(4)
    by (intro exI[of _ b'] exI[of _ a']) (simp add: remaining_eq)
qed

text \<open>
  C4.  \<open>get_permissions\<close> looks at the permissions whose path is an ancestor of, or equal
  to, the virtual path (same root, components a prefix).  When there is none it returns
  the default permission: path \<open>/\<close>, readable and writable.  Otherwise it returns a
  permission of the list that is such an ancestor, whose number of remaining components
  is strictly smaller than that of every matching permission before it in the list and
  at most that of every matching permission after it: the most specific one, the first
  among equals.
\<close>

theorem get_permissions_most_specific:
  "(is_parent q p \<longleftrightarrow> root (path q) = root p \<and> prefix (comps (path q)) (comps p)) \<and>
   ((\<forall>q\<in>set (permissions u). \<not> is_parent q p) \<longrightarrow>
      get_permissions u p
        = \<lparr>path = \<lparr>root = ''/'', comps = []\<rparr>, readable = True, writable = True\<rparr>) \<and>
   ((\<exists>q\<in>set (permissions u). is_parent q p) \<longrightarrow>
      (\<exists>before after. permissions u = before @ get_permissions u p # after \<and>
         is_parent (get_permissions u p) p \<and>
         (\<forall>q\<in>set before. is_parent q p \<longrightarrow>
            length (comps p) - length (comps (path (get_permissions u p)))
              < length (comps p) - length (comps (path q))) \<and>
         (\<forall>q\<in>set after. is_parent q p \<longrightarrow>
            length (comps p) - length (comps (path (get_permissions u p)))
              \<le> length (comps p) - length (comps (path q)))))"
  using is_parent_iff[of q p] get_permissions_default[of u p] get_permissions_match[of u p]
  by blast

theorem get_permissions_most_specific_witness:
  "is_parent (Permission_init ''/pub'' True False) (Path ''/pub/x'') \<and>
   get_permissions alice (Path ''/pub/x'') = Permission_init ''/pub'' True False \<and>
   \<not> is_parent (Permission_init ''/a'' False False) (Path ''/b'') \<and>
   get_permissions carol (Path ''/b'') = Permission_init ''/'' True True"
  using get_permissions_most_specific[of "Permission_init ''/pub'' True False" "Path ''/pub/x''" alice]
    get_permissions_most_specific[of "Permission_init ''/a'' False False" "Path ''/b''" carol]
  by (simp add: example_defs path_defs perm_defs carol_def)

section \<open>The gates\<close>

lemma login_required_absent:
  "c_logged (connection w) = None \<Longrightarrow>
   login_required f w rest =
     (Returns True ''503'' (Str ''bad sequence of commands (not logged in)'') None, w)"
  by (simp add: login_required_def fields_required_def in_connection_def)

lemma login_required_present:
  "c_logged (connection w) \<noteq> None \<Longrightarrow> login_required f w rest = f w rest"
  by (simp add: login_required_def fields_required_def in_connection_def)

lemma user_required_absent:
  "c_user (connection w) = None \<Longrightarrow>
   user_required f w rest =
     (Returns True ''503'' (Str ''bad sequence of commands (no user (use USER firstly))'') None, w)"
  by (simp add: user_required_def fields_required_def in_connection_def)

lemma user_required_present:
  "c_user (connection w) \<noteq> None \<Longrightarrow> user_required f w rest = f w rest"
  by (simp add: user_required_def fields_required_def in_connection_def)

lemma passive_required_no_server:
  "c_passive_server (connection w) = None \<Longrightarrow>
   passive_required f w rest =
     (Returns True ''503''
        (Str ''bad sequence of commands (no listen socket created (use PASV firstly))'') None, w)"
  by (simp add: passive_required_def fields_required_def in_connection_def)

lemma passive_required_no_connection:
  "c_passive_server (connection w) \<noteq> None \<Longrightarrow> c_passive_connection (connection w) = None \<Longrightarrow>
   passive_required f w rest =
     (Returns True ''503''
        (Str ''bad sequence of commands (no passive connection created (connect firstly))'') None, w)"
  by (simp add: passive_required_def fields_required_def in_connection_def)

lemma passive_required_present:
  "c_passive_server (connection w) \<noteq> None \<Longrightarrow> c_passive_connection (connection w) \<noteq> None \<Longrightarrow>
   passive_required f w rest = f w rest"
  by (simp add: passive_required_def fields_required_def in_connection_def)

lemma fields_required_missing:
  "first_missing required (connection w) = Some message \<Longrightarrow>
   fields_required required f w rest =
     (Returns True ''503'' (Str (''bad sequence of commands ('' @ message @ '')'')) None, w)"
  by (simp add: fields_required_def)

text \<open>The handlers under \<open>login_required\<close>, by name.\<close>

lemma handler_of_cases:
  assumes "handler_of self cmd = Some h"
  obtains "cmd = ''greeting''" "h = greeting"
  | "cmd = ''user''" "h = user self"
  | "cmd = ''pass_''" "h = pass_cmd"
  | "cmd = ''quit''" "h = quit"
  | "cmd = ''pwd''" "h = pwd"
  | "cmd = ''cwd''" "h = (\<lambda>w rest. cwd w (Text rest))"
  | "cmd = ''cdup''" "h = cdup"
  | "cmd = ''mkd''" "h = mkd"
  | "cmd = ''rmd''" "h = rmd"
  | "cmd = ''mlsd''" "h = mlsd"
  | "cmd = ''mlst''" "h = mlst"
  | "cmd = ''rnfr''" "h = rnfr"
  | "cmd = ''rnto''" "h = rnto"
  | "cmd = ''dele''" "h = dele"
  | "cmd = ''stor''" "h = stor"
  | "cmd = ''retr''" "h = retr"
  | "cmd = ''type''" "h = type"
  | "cmd = ''pasv''" "h = pasv self"
  | "cmd = ''abor''" "h = abor"
  using assms unfolding handler_of_def by (auto split: if_splits)

lemma login_gated:
  assumes "handler_of self cmd = Some h"
      and "cmd \<notin> set [''greeting'', ''user'', ''pass_'', ''quit'']"
      and "c_logged (connection w) = None"
  shows "h w rest = (Returns True ''503'' (Str ''bad sequence of commands (not logged in)'') None, w)"
  using assms(1)
proof (cases rule: handler_of_cases)
qed (use assms(2,3) in \<open>simp_all add: pwd_def cwd_def cdup_def mkd_def rmd_def mlsd_def mlst_def
      rnfr_def rnto_def dele_def stor_def retr_def type_def pasv_def abor_def login_required_absent\<close>)


lemmas handler_defs = greeting_def user_def pass_cmd_def pass_body_def quit_def pwd_def
  pwd_body_def cwd_def cwd_body_def cdup_def cdup_body_def mkd_def mkd_body_def rmd_def
  rmd_body_def rmd_code_info_def mlsd_def mlsd_body_def mlst_def mlst_body_def stub_def
  rnfr_def rnto_def dele_def stor_def retr_def abor_def type_def type_body_def pasv_def
  pasv_body_def pasv_listener_def pasv_nums_def

lemmas result_splits = sum.splits if_splits prod.splits option.splits list.splits
  sockname.splits

section \<open>The continue flag\<close>

lemma flag_greeting: "greeting w rest = (Returns ok code info lst, w') \<Longrightarrow> ok"
  by (simp add: greeting_def)

lemma flag_pass: "pass_cmd w rest = (Returns ok code info lst, w') \<Longrightarrow> ok"
  by (auto simp: pass_cmd_def pass_body_def gate_defs split: result_splits)

lemma flag_pwd: "pwd w rest = (Returns ok code info lst, w') \<Longrightarrow> ok"
  by (auto simp: pwd_def pwd_body_def gate_defs split: result_splits)

lemma flag_cwd: "cwd w a = (Returns ok code info lst, w') \<Longrightarrow> ok"
  by (auto simp: cwd_def cwd_body_def gate_defs Let_def split: result_splits)

lemma flag_cdup: "cdup w rest = (Returns ok code info lst, w') \<Longrightarrow> ok"
  by (auto simp: cdup_def cdup_body_def gate_defs dest: flag_cwd split: result_splits)

lemma flag_mkd: "mkd w rest = (Returns ok code info lst, w') \<Longrightarrow> ok"
  by (auto simp: mkd_def mkd_body_def gate_defs Let_def split: result_splits)

lemma flag_rmd: "rmd w rest = (Returns ok code info lst, w') \<Longrightarrow> ok"
  by (auto simp: rmd_def rmd_body_def gate_defs Let_def split: result_splits)

lemma flag_mlsd: "mlsd w rest = (Returns ok code info lst, w') \<Longrightarrow> ok"
  by (auto simp: mlsd_def mlsd_body_def gate_defs Let_def split: result_splits)

lemma flag_mlst: "mlst w rest = (Returns ok code info lst, w') \<Longrightarrow> ok"
  by (auto simp: mlst_def mlst_body_def gate_defs Let_def split: result_splits)

lemma flag_stub: "login_required stub w rest = (Returns ok code info lst, w') \<Longrightarrow> ok"
  by (auto simp: stub_def gate_defs split: result_splits)

lemma flag_type: "type w rest = (Returns ok code info lst, w') \<Longrightarrow> ok"
  by (auto simp: type_def type_body_def gate_defs split: result_splits)

lemma flag_pasv: "pasv self w rest = (Returns ok code info lst, w') \<Longrightarrow> ok"
  by (auto simp: pasv_def pasv_body_def gate_defs split: result_splits)

lemma flag_handlers:
  assumes "handler_of self cmd = Some h" "cmd \<noteq> ''quit''" "cmd \<noteq> ''user''"
      and "h w rest = (Returns ok code info lst, w')"
  shows ok
  using assms(1)
proof (cases rule: handler_of_cases)
qed (use assms(2-) in \<open>auto simp: rnfr_def rnto_def dele_def stor_def retr_def abor_def
      dest: flag_greeting flag_pass flag_pwd flag_cwd flag_cdup flag_mkd flag_rmd flag_mlsd
        flag_mlst flag_stub flag_type flag_pasv\<close>)

lemma scan_users_None:
  "scan_users us rest cur = None \<longleftrightarrow>
   cur = None \<and> (\<forall>u\<in>set us. login u \<noteq> Some rest \<and> login u \<noteq> None)"
  by (induction us arbitrary: cur) auto

lemma user_flag:
  "user self w rest = (Returns ok code info lst, w') \<Longrightarrow>
   (ok \<longleftrightarrow> scan_users (users self) rest None \<noteq> None) \<and> (\<not> ok \<longrightarrow> code = ''530'' \<and> w' = w)"
  by (auto simp: user_def split: result_splits)

lemma user_unknown:
  "\<forall>u\<in>set (users self). login u \<noteq> Some rest \<and> login u \<noteq> None \<Longrightarrow>
   user self w rest = (Returns False ''530'' (Str ''no such username'') None, w)"
  using scan_users_None[of "users self" rest None] by (simp add: user_def)


section \<open>The reply writer\<close>

lemma foldl_write_line:
  "foldl write_line writer xs = writer @ map (\<lambda>l. l @ CRLF) xs"
  by (induction xs arbitrary: writer) (simp_all add: write_line_def)

lemma write_response_plain:
  assumes "wrap_with_container ls \<noteq> []"
  shows "write_response writer code ls False =
     Inr (writer @ (map (\<lambda>l. code @ ''-'' @ l @ CRLF) (butlast (wrap_with_container ls))
                    @ [code @ '' '' @ last (wrap_with_container ls) @ CRLF]))"
  using assms by (simp add: write_response_def Let_def foldl_write_line write_line_def comp_def)

lemma write_response_list:
  assumes "wrap_with_container ls = head # rest" "rest \<noteq> []"
  shows "write_response writer code ls True =
     Inr (writer @ ((code @ ''-'' @ head @ CRLF)
                    # map (\<lambda>l. '' '' @ l @ CRLF) (butlast rest)
                    @ [code @ '' '' @ last rest @ CRLF]))"
  using assms by (simp add: write_response_def Let_def foldl_write_line write_line_def comp_def)

lemma write_response_too_short:
  "length (wrap_with_container ls) < (if lst then 2 else 1) \<Longrightarrow>
   write_response writer code ls lst = Inl ValueError"
  by (cases "wrap_with_container ls") (auto simp: write_response_def Let_def split: if_splits)

lemma write_response_written:
  assumes "\<not> length (wrap_with_container ls) < (if lst then 2 else 1)"
  shows "\<exists>written. write_response writer code ls lst = Inr (writer @ written) \<and>
     length written = length (wrap_with_container ls) \<and>
     prefix (code @ '' '') (last written) \<and>
     (\<not> lst \<longrightarrow> (\<forall>l\<in>set (butlast written). prefix (code @ ''-'') l)) \<and>
     (lst \<longrightarrow> prefix (code @ ''-'') (hd written) \<and>
        butlast (tl written)
          = map (\<lambda>l. '' '' @ l @ CRLF) (butlast (tl (wrap_with_container ls))))"
proof (cases lst)
  case False
  with assms have ne: "wrap_with_container ls \<noteq> []" by auto
  let ?written = "map (\<lambda>l. code @ ''-'' @ l @ CRLF) (butlast (wrap_with_container ls))
                    @ [code @ '' '' @ last (wrap_with_container ls) @ CRLF]"
  have "write_response writer code ls lst = Inr (writer @ ?written)"
    using write_response_plain[OF ne] False by simp
  moreover have "length ?written = length (wrap_with_container ls)" using ne by simp
  moreover have "prefix (code @ '' '') (last ?written)" by simp
  moreover have "\<forall>l\<in>set (butlast ?written). prefix (code @ ''-'') l" by auto
  ultimately show ?thesis using False by blast
next
  case True
  with assms obtain head rest where l: "wrap_with_container ls = head # rest" "rest \<noteq> []"
    by (cases "wrap_with_container ls") auto
  let ?written = "(code @ ''-'' @ head @ CRLF)
                    # map (\<lambda>l. '' '' @ l @ CRLF) (butlast rest)
                    @ [code @ '' '' @ last rest @ CRLF]"
  have "write_response writer code ls lst = Inr (writer @ ?written)"
    using write_response_list[OF l] True by simp
  moreover have "length ?written = length (wrap_with_container ls)" using l by simp
  moreover have "prefix (code @ '' '') (last ?written)" by simp
  moreover have "prefix (code @ ''-'') (hd ?written)" by simp
  moreover have "butlast (tl ?written)
      = map (\<lambda>l. '' '' @ l @ CRLF) (butlast (tl (wrap_with_container ls)))"
    using l by simp
  ultimately show ?thesis using True by blast
qed

text \<open>
  C3, as amended.  \<open>write_response\<close> raises ValueError, and writes nothing, when it is given
  no line, or fewer than two lines with the multi-line flag.  Otherwise it writes one
  chunk for each line; the last starts with the code and a space.  Without the flag every
  earlier chunk starts with the code and a hyphen.  With the flag the first chunk starts
  with the code and a hyphen, and each interior chunk is a single space, the line and
  CRLF.
\<close>

theorem write_response_framing:
  "(length (wrap_with_container ls) < (if lst then 2 else 1) \<longrightarrow>
      write_response writer code ls lst = Inl ValueError) \<and>
   (\<not> length (wrap_with_container ls) < (if lst then 2 else 1) \<longrightarrow>
      (\<exists>written. write_response writer code ls lst = Inr (writer @ written) \<and>
         length written = length (wrap_with_container ls) \<and>
         prefix (code @ '' '') (last written) \<and>
         (\<not> lst \<longrightarrow> (\<forall>l\<in>set (butlast written). prefix (code @ ''-'') l)) \<and>
         (lst \<longrightarrow> prefix (code @ ''-'') (hd written) \<and>
            butlast (tl written)
              = map (\<lambda>l. '' '' @ l @ CRLF) (butlast (tl (wrap_with_container ls))))))"
  using write_response_too_short[of ls lst writer code]
    write_response_written[of ls lst writer code]
  by blast

text \<open>The amended C3 at a two-line \<open>227\<close> reply, a three-line \<open>250\<close> list, and no line.\<close>

theorem write_response_framing_witness:
  "write_response [] ''227'' (Lines [''listen socket created'', ''(127,0,0,1,195,81)'']) False
     = Inr [''227-listen socket created'' @ CRLF, ''227 (127,0,0,1,195,81)'' @ CRLF] \<and>
   write_response [] ''250'' (Lines [''start'', ''x'', ''end'']) True
     = Inr [''250-start'' @ CRLF, '' x'' @ CRLF, ''250 end'' @ CRLF] \<and>
   write_response [] ''250'' (Lines []) False = Inl ValueError"
  using write_response_framing[of "Lines [''listen socket created'', ''(127,0,0,1,195,81)'']" False "[]" "''227''"]
    write_response_framing[of "Lines [''start'', ''x'', ''end'']" True "[]" "''250''"]
    write_response_framing[of "Lines []" False "[]" "''250''"]
  by (simp add: write_response_def wrap_with_container_def write_line_def)

text \<open>
  C3 as stated fails: with the multi-line flag and three lines, the second line written
  does not start with the code and a hyphen.
\<close>

theorem write_response_interior_line:
  "write_response [] ''250'' (Lines [''start'', ''x'', ''end'']) True
     = Inr [''250-start'' @ CRLF, '' x'' @ CRLF, ''250 end'' @ CRLF] \<and>
   \<not> prefix ''250-'' ('' x'' @ CRLF)"
  by (simp add: write_response_def wrap_with_container_def write_line_def)


section \<open>Claims on gates, flags, rmd and cdup\<close>

text \<open>
  C1.  The session \<open>logged_world\<close> is logged in as \<open>alice\<close>; the target \<open>old\<close> resolves to
  \<open>/srv/old\<close>, which exists and is a directory; the permission for \<open>/old\<close> is writable and
  \<open>rmdir\<close> succeeds.  \<open>rmd\<close> computes the code \<open>257\<close> and the empty text, and returns
  \<open>None\<close>, not the triple; the dispatcher then fails with TypeError when it takes the
  result apart, and nothing is written to the client.
\<close>

theorem rmd_success_returns_None:
  "c_logged (connection logged_world) = Some True \<and>
   get_paths (connection logged_world) (Text ''old'') = Inr (Path ''/srv/old'', Path ''/old'') \<and>
   io_exists example_io (filesystem logged_world) (Path ''/srv/old'') \<and>
   io_is_dir example_io (filesystem logged_world) (Path ''/srv/old'') \<and>
   writable (get_permissions alice (Path ''/old'')) \<and>
   io_rmdir example_io (filesystem logged_world) (Path ''/srv/old'')
     = Inr [Path ''/srv'', Path ''/srv/pub''] \<and>
   rmd_code_info alice logged_world (Path ''/srv/old'') (Path ''/old'')
     = ((''257'', []), logged_world\<lparr>filesystem := [Path ''/srv'', Path ''/srv/pub'']\<rparr>) \<and>
   rmd logged_world ''old''
     = (Returns_None, logged_world\<lparr>filesystem := [Path ''/srv'', Path ''/srv/pub'']\<rparr>) \<and>
   dispatch (example_server [alice]) logged_world [] (''rmd'', ''old'')
     = (Inl TypeError, logged_world\<lparr>filesystem := [Path ''/srv'', Path ''/srv/pub'']\<rparr>, [])"
  by (simp add: dispatch_def handler_of_def handler_defs gate_defs get_paths_def example_defs
      path_defs perm_defs)

lemma rmd_never_replies:
  "c_logged (connection w) \<noteq> None \<Longrightarrow> fst (rmd w rest) \<noteq> Returns ok code info lst"
  by (auto simp: rmd_def rmd_body_def gate_defs split: result_splits)

text \<open>
  C2, as amended.  A handler other than \<open>quit\<close> and \<open>user\<close> that returns a reply returns it
  with \<open>ok = True\<close>.  \<open>quit\<close> always returns \<open>ok = False\<close>.  \<open>user\<close> returns \<open>ok = True\<close>
  exactly when the scan selects a user; when no user has the given login and none is
  anonymous it replies \<open>530 no such username\<close> with \<open>ok = False\<close>, and leaves the
  session as it was.
\<close>

theorem continue_flag_of_handlers:
  "(handler_of self cmd = Some h \<and> cmd \<noteq> ''quit'' \<and> cmd \<noteq> ''user'' \<and>
      h w rest = (Returns ok code info lst, w') \<longrightarrow> ok) \<and>
   quit w rest = (Returns False ''221'' (Str ''bye'') None, w) \<and>
   (user self w rest = (Returns ok code info lst, w') \<longrightarrow>
      (ok \<longleftrightarrow> scan_users (users self) rest None \<noteq> None)) \<and>
   ((\<forall>u\<in>set (users self). login u \<noteq> Some rest \<and> login u \<noteq> None) \<longrightarrow>
      user self w rest = (Returns False ''530'' (Str ''no such username'') None, w))"
  using flag_handlers[of self cmd h w rest ok code info lst w']
    user_flag[of self w rest ok code info lst w'] user_unknown[of self rest w]
  by (auto simp: quit_def)

text \<open>
  The amended C2 at \<open>PWD\<close> in a logged-in session and at \<open>USER bob\<close> on a server whose only
  user is \<open>carol\<close>.
\<close>

theorem continue_flag_of_handlers_witness:
  "pwd logged_world [] = (Returns True ''257'' (Str [CHR 0x22, CHR ''/'', CHR 0x22]) None, logged_world) \<and>
   login carol \<noteq> Some ''bob'' \<and> login carol \<noteq> None \<and>
   user (example_server [carol]) fresh_world ''bob''
     = (Returns False ''530'' (Str ''no such username'') None, fresh_world)"
proof -
  have p: "pwd logged_world []
      = (Returns True ''257'' (Str [CHR 0x22, CHR ''/'', CHR 0x22]) None, logged_world)"
    by (simp add: handler_defs gate_defs example_defs path_defs str_path_def)
  have c: "login carol \<noteq> Some ''bob''" "login carol \<noteq> None"
    by (simp_all add: carol_def User_init_def)
  have u: "users (example_server [carol]) = [carol]" by (simp add: example_server_def)
  have h: "handler_of (example_server [carol]) ''pwd'' = Some pwd" by (simp add: handler_of_def)
  from continue_flag_of_handlers[where self = "example_server [carol]" and cmd = "''pwd''"
      and h = pwd and w = fresh_world and rest = "''bob''"] c u
  have "user (example_server [carol]) fresh_world ''bob''
     = (Returns False ''530'' (Str ''no such username'') None, fresh_world)" by simp
  with p c show ?thesis by simp
qed

text \<open>
  C2 as stated fails: \<open>user\<close> is a handler other than \<open>quit\<close>, and \<open>USER bob\<close> on a server
  whose only user is \<open>alice\<close> returns \<open>ok = False\<close>; the loop of the dispatcher ends after
  the \<open>530\<close> reply and the next command is not read.
\<close>

theorem user_unknown_ends_session:
  "handler_of (example_server [alice]) ''user'' = Some (user (example_server [alice])) \<and>
   user (example_server [alice]) fresh_world ''bob''
     = (Returns False ''530'' (Str ''no such username'') None, fresh_world) \<and>
   dispatcher_loop (example_server [alice]) fresh_world [] [(''user'', ''bob''), (''user'', ''alice'')]
     = (None, fresh_world, [''530 no such username'' @ CRLF])"
  by (simp add: dispatch_def handler_of_def user_def example_defs write_response_def
      wrap_with_container_def write_line_def)

text \<open>
  C8.  Under \<open>user_required\<close>, \<open>login_required\<close> and \<open>passive_required\<close> (and under any
  \<open>fields_required\<close> with a missing key) a session that lacks the required key gets
  \<open>(True, 503, bad sequence of commands (message))\<close> with the message of the first missing
  key, whatever the wrapped function \<open>f\<close> is, and the session is returned unchanged.  So
  it is for the handlers of the server themselves: every handler but \<open>greeting\<close>, \<open>user\<close>,
  \<open>pass_\<close> and \<open>quit\<close> without \<open>logged\<close>, \<open>pass_\<close> without \<open>user\<close>, and \<open>mlsd\<close> without
  \<open>passive_server\<close> or without \<open>passive_connection\<close>.
\<close>

theorem gates_short_circuit:
  "(c_user (connection w) = None \<longrightarrow>
      user_required f w a =
        (Returns True ''503''
           (Str ''bad sequence of commands (no user (use USER firstly))'') None, w)) \<and>
   (c_logged (connection w) = None \<longrightarrow>
      login_required f w a =
        (Returns True ''503'' (Str ''bad sequence of commands (not logged in)'') None, w)) \<and>
   (c_passive_server (connection w) = None \<longrightarrow>
      passive_required f w a =
        (Returns True ''503''
           (Str ''bad sequence of commands (no listen socket created (use PASV firstly))'')
           None, w)) \<and>
   (c_passive_server (connection w) \<noteq> None \<and> c_passive_connection (connection w) = None \<longrightarrow>
      passive_required f w a =
        (Returns True ''503''
           (Str ''bad sequence of commands (no passive connection created (connect firstly))'')
           None, w)) \<and>
   (first_missing required (connection w) = Some message \<longrightarrow>
      fields_required required f w a =
        (Returns True ''503'' (Str (''bad sequence of commands ('' @ message @ '')'')) None, w)) \<and>
   (handler_of self cmd = Some h \<and>
    cmd \<notin> set [''greeting'', ''user'', ''pass_'', ''quit''] \<and>
    c_logged (connection w) = None \<longrightarrow>
      h w rest =
        (Returns True ''503'' (Str ''bad sequence of commands (not logged in)'') None, w)) \<and>
   (c_user (connection w) = None \<longrightarrow>
      pass_cmd w rest =
        (Returns True ''503''
           (Str ''bad sequence of commands (no user (use USER firstly))'') None, w)) \<and>
   (c_logged (connection w) \<noteq> None \<and> c_passive_server (connection w) = None \<longrightarrow>
      mlsd w rest =
        (Returns True ''503''
           (Str ''bad sequence of commands (no listen socket created (use PASV firstly))'')
           None, w)) \<and>
   (c_logged (connection w) \<noteq> None \<and> c_passive_server (connection w) \<noteq> None \<and>
    c_passive_connection (connection w) = None \<longrightarrow>
      mlsd w rest =
        (Returns True ''503''
           (Str ''bad sequence of commands (no passive connection created (connect firstly))'')
           None, w))"
  using user_required_absent[of w f a] login_required_absent[of w f a]
    passive_required_no_server[of w f a] passive_required_no_connection[of w f a]
    fields_required_missing[of required w message f a]
    login_gated[of self cmd h w rest]
    user_required_absent[of w "unpack_user pass_body" rest]
    login_required_present[of w "passive_required (unpack_user mlsd_body)" rest]
    passive_required_no_server[of w "unpack_user mlsd_body" rest]
    passive_required_no_connection[of w "unpack_user mlsd_body" rest]
  by (simp add: pass_cmd_def mlsd_def)

text \<open>C8 at \<open>PASS\<close> and \<open>RMD\<close> on a fresh connection and at \<open>MLSD\<close> before \<open>PASV\<close>.\<close>

theorem gates_short_circuit_witness:
  "c_user (connection fresh_world) = None \<and>
   c_logged (connection fresh_world) = None \<and>
   c_logged (connection logged_world) \<noteq> None \<and>
   c_passive_server (connection logged_world) = None \<and>
   pass_cmd fresh_world ''secret''
     = (Returns True ''503''
          (Str ''bad sequence of commands (no user (use USER firstly))'') None, fresh_world) \<and>
   rmd fresh_world ''old''
     = (Returns True ''503'' (Str ''bad sequence of commands (not logged in)'') None,
        fresh_world) \<and>
   mlsd logged_world []
     = (Returns True ''503''
          (Str ''bad sequence of commands (no listen socket created (use PASV firstly))'')
          None, logged_world)"
proof -
  have f: "c_user (connection fresh_world) = None" "c_logged (connection fresh_world) = None"
    by (simp_all add: example_defs)
  have l: "c_logged (connection logged_world) \<noteq> None"
    "c_passive_server (connection logged_world) = None"
    by (simp_all add: example_defs)
  have h: "handler_of (example_server [alice]) ''rmd'' = Some rmd" by (simp add: handler_of_def)
  from gates_short_circuit[where w = fresh_world and self = "example_server [alice]"
      and cmd = "''rmd''" and h = rmd and rest = "''old''" and f = stub and a = "[]"
      and required = "[]" and message = "[]"] f h
  have r: "rmd fresh_world ''old''
     = (Returns True ''503'' (Str ''bad sequence of commands (not logged in)'') None,
        fresh_world)" by simp
  from gates_short_circuit[where w = fresh_world and self = "example_server [alice]"
      and cmd = "''rmd''" and h = rmd and rest = "''secret''" and f = stub and a = "[]"
      and required = "[]" and message = "[]"] f
  have p: "pass_cmd fresh_world ''secret''
     = (Returns True ''503''
          (Str ''bad sequence of commands (no user (use USER firstly))'') None, fresh_world)"
    by simp
  from gates_short_circuit[where w = logged_world and self = "example_server [alice]"
      and cmd = "''rmd''" and h = rmd and rest = "[]" and f = stub and a = "[]"
      and required = "[]" and message = "[]"] l
  have m: "mlsd logged_world []
     = (Returns True ''503''
          (Str ''bad sequence of commands (no listen socket created (use PASV firstly))'')
          None, logged_world)" by simp
  from f l r p m show ?thesis by simp
qed

text \<open>
  C9.  In a logged-in session with current directory \<open>d\<close>, \<open>cdup\<close> gives the reply and the
  session that \<open>cwd\<close> gives for the argument \<open>d.parent\<close>.
\<close>

theorem cdup_is_cwd_parent:
  assumes "c_logged (connection w) \<noteq> None"
      and "c_current_directory (connection w) = Some d"
  shows "cdup w rest = cwd w (PathObj (parent d))"
  using assms by (simp add: cdup_def cdup_body_def login_required_present
      unpack_current_directory_def)

text \<open>C9 at \<open>CDUP\<close> in \<open>/pub\<close>: the session moves to \<open>/\<close> with reply \<open>250\<close>.\<close>

theorem cdup_is_cwd_parent_witness:
  "c_logged (connection pub_world) \<noteq> None \<and>
   c_current_directory (connection pub_world) = Some (Path ''/pub'') \<and>
   parent (Path ''/pub'') = Path ''/'' \<and>
   cdup pub_world [] = cwd pub_world (PathObj (Path ''/'')) \<and>
   cdup pub_world [] = (Returns True ''250'' (Str []) None, logged_world)"
proof -
  have l: "c_logged (connection pub_world) \<noteq> None"
    "c_current_directory (connection pub_world) = Some (Path ''/pub'')"
    by (simp_all add: example_defs)
  have p: "parent (Path ''/pub'') = Path ''/''" by (simp add: path_defs)
  have c: "cwd pub_world (PathObj (Path ''/'')) = (Returns True ''250'' (Str []) None, logged_world)"
    by (simp add: cwd_def cwd_body_def gate_defs get_paths_def example_defs path_defs perm_defs)
  from cdup_is_cwd_parent[OF l, of "[]"] p c l show ?thesis by simp
qed

section \<open>USER\<close>

lemma scan_users_find:
  "scan_users us rest cur =
     (case find (\<lambda>u. login u = Some rest) us of
        Some u \<Rightarrow> Some u
      | None \<Rightarrow> (case cur of Some c \<Rightarrow> Some c | None \<Rightarrow> find (\<lambda>u. login u = None) us))"
  by (induction us arbitrary: cur) (auto split: option.splits)

lemma scan_users_selected: "scan_users us rest None = selected_user us rest"
  by (simp add: scan_users_find selected_user_def split: option.splits)

lemma find_first:
  "\<forall>v\<in>set b. \<not> P v \<Longrightarrow> P u \<Longrightarrow> find P (b @ u # a) = Some u"
  by (induction b) auto

lemma selected_named:
  assumes "us = before @ u # after" "login u = Some rest"
      and "\<forall>v\<in>set before. login v \<noteq> Some rest"
  shows "selected_user us rest = Some u"
  using find_first[of before "\<lambda>u. login u = Some rest" u after] assms
  by (simp add: selected_user_def)

lemma selected_anonymous:
  assumes "us = before @ u # after" "login u = None"
      and "\<forall>v\<in>set before. login v \<noteq> None" "\<forall>v\<in>set us. login v \<noteq> Some rest"
  shows "selected_user us rest = Some u"
proof -
  have "find (\<lambda>u. login u = Some rest) us = None" using assms(4) by (simp add: find_None_iff)
  moreover have "find (\<lambda>u. login u = None) us = Some u"
    using find_first[of before "\<lambda>u. login u = None" u after] assms(1-3) by simp
  ultimately show ?thesis by (simp add: selected_user_def)
qed

lemma user_none:
  "selected_user (users self) rest = None \<Longrightarrow>
   user self w rest = (Returns False ''530'' (Str ''no such username'') None, w)"
  by (simp add: user_def scan_users_selected)

lemma user_anonymous:
  "selected_user (users self) rest = Some cu \<Longrightarrow> login cu = None \<Longrightarrow>
   user self w rest =
     (Returns True ''230'' (Str ''anonymous login'') None,
      w\<lparr>connection := (connection w)
          \<lparr>c_logged := Some True, c_current_directory := Some (home_path cu),
           c_user := Some cu\<rparr>\<rparr>)"
  by (simp add: user_def scan_users_selected)

lemma user_named:
  "selected_user (users self) rest = Some cu \<Longrightarrow> login cu \<noteq> None \<Longrightarrow>
   user self w rest =
     (Returns True ''331'' (Str ''require password'') None,
      w\<lparr>connection := (connection w)\<lparr>c_user := Some cu\<rparr>\<rparr>)"
  by (simp add: user_def scan_users_selected)

text \<open>
  C6.  The scan of \<open>user\<close> selects what the specification says (\<open>selected_user\<close>): a user
  whose login is the argument and who is the first such user is selected, whatever comes
  before and after it; when no login is the argument, the first anonymous user is
  selected.  With no selected user the reply is \<open>530\<close> and the session is unchanged; with
  an anonymous one the handler sets \<open>logged\<close>, \<open>current_directory\<close> (the home path) and
  \<open>user\<close> and replies \<open>230 anonymous login\<close>; with a named one it sets \<open>user\<close> only and
  replies \<open>331 require password\<close>.
\<close>

theorem user_selection:
  "scan_users (users self) rest None = selected_user (users self) rest \<and>
   (users self = before @ u # after \<and> login u = Some rest \<and>
    (\<forall>v\<in>set before. login v \<noteq> Some rest) \<longrightarrow>
      selected_user (users self) rest = Some u) \<and>
   (users self = before @ u # after \<and> login u = None \<and>
    (\<forall>v\<in>set before. login v \<noteq> None) \<and> (\<forall>v\<in>set (users self). login v \<noteq> Some rest) \<longrightarrow>
      selected_user (users self) rest = Some u) \<and>
   (selected_user (users self) rest = None \<longrightarrow>
      user self w rest = (Returns False ''530'' (Str ''no such username'') None, w)) \<and>
   (selected_user (users self) rest = Some cu \<and> login cu = None \<longrightarrow>
      user self w rest =
        (Returns True ''230'' (Str ''anonymous login'') None,
         w\<lparr>connection := (connection w)
             \<lparr>c_logged := Some True, c_current_directory := Some (home_path cu),
              c_user := Some cu\<rparr>\<rparr>)) \<and>
   (selected_user (users self) rest = Some cu \<and> login cu \<noteq> None \<longrightarrow>
      user self w rest =
        (Returns True ''331'' (Str ''require password'') None,
         w\<lparr>connection := (connection w)\<lparr>c_user := Some cu\<rparr>\<rparr>))"
  using scan_users_selected[of "users self" rest]
    selected_named[of "users self" before u after rest]
    selected_anonymous[of "users self" before u after rest]
    user_none[of self rest w] user_anonymous[of self rest cu w] user_named[of self rest cu w]
  by blast

text \<open>
  C6 at \<open>USER alice\<close> with an anonymous user first in the list, and at \<open>USER bob\<close> with no
  user of that name.
\<close>

theorem user_selection_witness:
  "selected_user [anonymous, carol, alice] ''alice'' = Some alice \<and>
   login alice \<noteq> None \<and>
   user (example_server [anonymous, carol, alice]) fresh_world ''alice''
     = (Returns True ''331'' (Str ''require password'') None,
        fresh_world\<lparr>connection := (connection fresh_world)\<lparr>c_user := Some alice\<rparr>\<rparr>) \<and>
   selected_user [carol, anonymous, alice] ''bob'' = Some anonymous \<and>
   login anonymous = None \<and>
   user (example_server [carol, anonymous, alice]) fresh_world ''bob''
     = (Returns True ''230'' (Str ''anonymous login'') None,
        fresh_world\<lparr>connection := (connection fresh_world)
          \<lparr>c_logged := Some True, c_current_directory := Some (home_path anonymous),
           c_user := Some anonymous\<rparr>\<rparr>)"
proof -
  have s1: "selected_user [anonymous, carol, alice] ''alice'' = Some alice"
    by (simp add: selected_user_def alice_def carol_def anonymous_def User_init_def)
  have s2: "selected_user [carol, anonymous, alice] ''bob'' = Some anonymous"
    by (simp add: selected_user_def alice_def carol_def anonymous_def User_init_def)
  have l: "login alice \<noteq> None" "login anonymous = None"
    by (simp_all add: alice_def anonymous_def User_init_def)
  have u1: "users (example_server [anonymous, carol, alice]) = [anonymous, carol, alice]"
    and u2: "users (example_server [carol, anonymous, alice]) = [carol, anonymous, alice]"
    by (simp_all add: example_server_def)
  from user_selection[where self = "example_server [anonymous, carol, alice]"
      and rest = "''alice''" and cu = alice and w = fresh_world and before = "[]"
      and u = anonymous and after = "[carol, alice]"] s1 l u1
  have a: "user (example_server [anonymous, carol, alice]) fresh_world ''alice''
     = (Returns True ''331'' (Str ''require password'') None,
        fresh_world\<lparr>connection := (connection fresh_world)\<lparr>c_user := Some alice\<rparr>\<rparr>)"
    by simp
  from user_selection[where self = "example_server [carol, anonymous, alice]"
      and rest = "''bob''" and cu = anonymous and w = fresh_world and before = "[]"
      and u = carol and after = "[anonymous, alice]"] s2 l u2
  have b: "user (example_server [carol, anonymous, alice]) fresh_world ''bob''
     = (Returns True ''230'' (Str ''anonymous login'') None,
        fresh_world\<lparr>connection := (connection fresh_world)
          \<lparr>c_logged := Some True, c_current_directory := Some (home_path anonymous),
           c_user := Some anonymous\<rparr>\<rparr>)"
    by simp
  from s1 s2 l a b show ?thesis by simp
qed

end
